theory Spec2Isabelle
  imports Main
begin

section \<open>Configuration (package config)\<close>

subsection \<open>Library functions the loader calls\<close>

text \<open>
  \<^verbatim>\<open>strconv.ParseUint(s, 10, bitSize)\<close> and \<^verbatim>\<open>strconv.ParseInt(s, 10, bitSize)\<close>
  of the Go standard library, for base 10 (the only base used here). The digit loop stops
  with a syntax error at the first byte that is not a decimal digit and with a range error as
  soon as the accumulated value exceeds \<open>2 ^ bitSize - 1\<close>; \<open>ParseInt\<close> takes one leading
  sign and then checks the signed range.
\<close>

datatype NumError = ErrSyntax | ErrRange

definition digit_of :: "char \<Rightarrow> nat option" where
  "digit_of c = (let n = (of_char c :: nat) in if 48 \<le> n \<and> n \<le> 57 then Some (n - 48) else None)"

fun parse_digits :: "nat \<Rightarrow> nat \<Rightarrow> string \<Rightarrow> NumError + nat" where
  "parse_digits maxVal n [] = Inr n"
| "parse_digits maxVal n (c # cs) =
     (case digit_of c of
        None \<Rightarrow> Inl ErrSyntax
      | Some d \<Rightarrow> if maxVal < n * 10 + d then Inl ErrRange else parse_digits maxVal (n * 10 + d) cs)"

definition ParseUint :: "string \<Rightarrow> nat \<Rightarrow> NumError + nat" where
  "ParseUint s bitSize = (if s = [] then Inl ErrSyntax else parse_digits (2 ^ bitSize - 1) 0 s)"

definition ParseInt :: "string \<Rightarrow> nat \<Rightarrow> NumError + int" where
  "ParseInt s0 bitSize =
     (case s0 of
        [] \<Rightarrow> Inl ErrSyntax
      | c # r \<Rightarrow>
          let neg = (c = CHR ''-'');
              s = (if c = CHR ''+'' \<or> c = CHR ''-'' then r else s0)
          in (case ParseUint s bitSize of
                Inl e \<Rightarrow> Inl e
              | Inr un \<Rightarrow>
                  let cutoff = (2::nat) ^ (bitSize - 1)
                  in if \<not> neg \<and> cutoff \<le> un then Inl ErrRange
                     else if neg \<and> cutoff < un then Inl ErrRange
                     else Inr (if neg then - int un else int un)))"

text \<open>
  The errors of the program: a field that does not parse, the failed validations (field and
  tag), and any error of the libraries and the system, kept as its message.
\<close>

datatype error =
    ParseError string NumError
  | ValidationErrors "(string \<times> string) list"
  | errorString string

text \<open>The process environment: a dictionary from variable names to values.\<close>

type_synonym environ = "string \<rightharpoonup> string"

text \<open>
  \<^verbatim>\<open>godotenv.Load()\<close>: reads the file \<^verbatim>\<open>.env\<close>; when reading or parsing fails it returns
  the error and sets nothing, otherwise it sets every variable of the file that the process
  environment does not have yet. The argument is what reading the file gives: \<open>Inl\<close> the
  error, \<open>Inr\<close> the variables of the file.
\<close>

definition godotenv_Load :: "error + environ \<Rightarrow> environ \<Rightarrow> error option \<times> environ" where
  "godotenv_Load file envs =
     (case file of
        Inl err \<Rightarrow> (Some err, envs)
      | Inr vars \<Rightarrow> (None, vars ++ envs))"

text \<open>
  \<^verbatim>\<open>getOr\<close> of \<^verbatim>\<open>github.com/caarlos0/env/v11\<close>: the value of a variable, the default of
  the field (tag \<^verbatim>\<open>envDefault\<close>) standing in when the variable is unset or set to the empty
  string. The result is the value and whether the variable counts as existing.
\<close>

definition getOr :: "string \<Rightarrow> string option \<Rightarrow> environ \<Rightarrow> string \<times> bool" where
  "getOr key dflt envs =
     (case (envs key, dflt) of
        (None, Some d) \<Rightarrow> (d, True)
      | (Some v, Some d) \<Rightarrow> if v = [] then (d, True) else (v, True)
      | (None, None) \<Rightarrow> ([], False)
      | (Some v, None) \<Rightarrow> (v, True))"

subsection \<open>The configuration structure\<close>

record ServerConfig =
  Address :: string
  Port :: int
  LogLevel :: string
  Env :: string

record Config =
  Server :: ServerConfig

text \<open>
  \<^verbatim>\<open>env.Parse(config)\<close> on the structure above: every field reads its variable under the
  prefix \<^verbatim>\<open>SERVER_\<close>; an empty value leaves the field at its zero value; the port is read
  with \<open>ParseInt\<close> at 32 bits. The tag \<^verbatim>\<open>required:"true"\<close> of \<open>Port\<close> is not an option of
  this library (that would be \<^verbatim>\<open>env:"PORT,required"\<close>), so an unset port is no parse error.
\<close>

definition env_Parse :: "environ \<Rightarrow> error + Config" where
  "env_Parse envs =
     (let address = fst (getOr ''SERVER_ADDRESS'' None envs);
          port = fst (getOr ''SERVER_PORT'' None envs);
          logLevel = fst (getOr ''SERVER_LOG_LEVEL'' (Some ''info'') envs);
          env = fst (getOr ''SERVER_ENV'' None envs)
      in case (if port = [] then Inr 0 else ParseInt port 32) of
           Inl e \<Rightarrow> Inl (ParseError ''Port'' e)
         | Inr p \<Rightarrow> Inr \<lparr>Server = \<lparr>Address = address, Port = p, LogLevel = logLevel, Env = env\<rparr>\<rparr>)"

text \<open>
  The \<^verbatim>\<open>validate\<close> tags of \<open>ServerConfig\<close>, as \<^verbatim>\<open>go-playground/validator\<close> checks them: the
  tags of a field in order, the first failing tag reported for the field.
  \<^item> \<open>Port\<close>: \<^verbatim>\<open>required,gt=0,lt=65536\<close>
  \<^item> \<open>LogLevel\<close>: \<^verbatim>\<open>required,oneof=debug info warn error\<close>
  \<^item> \<open>Env\<close>: \<^verbatim>\<open>required,oneof=local dev staging prod\<close>
\<close>

definition validate_Port :: "int \<Rightarrow> string option" where
  "validate_Port p =
     (if p = 0 then Some ''required''
      else if \<not> 0 < p then Some ''gt''
      else if \<not> p < 65536 then Some ''lt''
      else None)"

definition validate_oneof :: "string list \<Rightarrow> string \<Rightarrow> string option" where
  "validate_oneof allowed s =
     (if s = [] then Some ''required''
      else if s \<notin> set allowed then Some ''oneof''
      else None)"

definition logLevels :: "string list" where
  "logLevels = [''debug'', ''info'', ''warn'', ''error'']"

definition envTags :: "string list" where
  "envTags = [''local'', ''dev'', ''staging'', ''prod'']"

definition field_error :: "string \<Rightarrow> string option \<Rightarrow> (string \<times> string) list" where
  "field_error name r = (case r of None \<Rightarrow> [] | Some tag \<Rightarrow> [(name, tag)])"

definition validator_Struct :: "Config \<Rightarrow> error option" where
  "validator_Struct c =
     (let errs = field_error ''Port'' (validate_Port (Port (Server c)))
               @ field_error ''LogLevel'' (validate_oneof logLevels (LogLevel (Server c)))
               @ field_error ''Env'' (validate_oneof envTags (Env (Server c)))
      in if errs = [] then None else Some (ValidationErrors errs))"

subsection \<open>Logging (zerolog)\<close>

text \<open>
  A \<^verbatim>\<open>zerolog.Level\<close> is a small integer. An event is written when its level is at least
  the level of the logger. (The global level stays at its default, debug; no logger of
  this program is below it.)
\<close>

type_synonym Level = int

definition TraceLevel :: Level where "TraceLevel = - 1"
definition DebugLevel :: Level where "DebugLevel = 0"
definition InfoLevel :: Level where "InfoLevel = 1"
definition WarnLevel :: Level where "WarnLevel = 2"
definition ErrorLevel :: Level where "ErrorLevel = 3"
definition FatalLevel :: Level where "FatalLevel = 4"
definition PanicLevel :: Level where "PanicLevel = 5"
definition NoLevel :: Level where "NoLevel = 6"
definition Disabled :: Level where "Disabled = 7"

record LogEntry =
  entry_level :: Level
  entry_err :: "error option"
  entry_msg :: string

definition emit :: "Level \<Rightarrow> Level \<Rightarrow> error option \<Rightarrow> string \<Rightarrow> LogEntry list" where
  "emit logger lvl err msg =
     (if lvl < logger then []
      else [\<lparr>entry_level = lvl, entry_err = err, entry_msg = msg\<rparr>])"

text \<open>
  \<^verbatim>\<open>zerolog.ParseLevel\<close>: the names of the levels are compared with
  \<^verbatim>\<open>strings.EqualFold\<close> in the order below; any other string is read as a number with
  \<^verbatim>\<open>strconv.Atoi\<close> and must fit the 8 bits of a level. \<open>EqualFold\<close> is modelled on
  ASCII letters, which is all the level names contain.
\<close>

definition lower :: "char \<Rightarrow> char" where
  "lower c = (let n = (of_char c :: nat) in if 65 \<le> n \<and> n \<le> 90 then char_of (n + 32) else c)"

definition EqualFold :: "string \<Rightarrow> string \<Rightarrow> bool" where
  "EqualFold s t = (map lower s = map lower t)"

definition levelNames :: "(string \<times> Level) list" where
  "levelNames =
     [(''trace'', TraceLevel), (''debug'', DebugLevel), (''info'', InfoLevel),
      (''warn'', WarnLevel), (''error'', ErrorLevel), (''fatal'', FatalLevel),
      (''panic'', PanicLevel), (''disabled'', Disabled), ([], NoLevel)]"

definition Atoi :: "string \<Rightarrow> NumError + int" where
  "Atoi s = ParseInt s 64"

datatype LevelError = UnknownLevelString string | OutOfBoundsLevel int

definition ParseLevel :: "string \<Rightarrow> LevelError + Level" where
  "ParseLevel levelStr =
     (case find (\<lambda>(name, l). EqualFold levelStr name) levelNames of
        Some (name, l) \<Rightarrow> Inr l
      | None \<Rightarrow>
          (case Atoi levelStr of
             Inl e \<Rightarrow> Inl (UnknownLevelString levelStr)
           | Inr i \<Rightarrow> if 127 < i \<or> i < - 128 then Inl (OutOfBoundsLevel i) else Inr i))"

text \<open>
  \<^verbatim>\<open>Level.String()\<close> for the named levels; \<open>None\<close> stands for the levels with no name,
  which print as their number.
\<close>

definition Level_String :: "Level \<Rightarrow> string option" where
  "Level_String l = map_option fst (find (\<lambda>(name, l'). l' = l) levelNames)"

subsection \<open>LoadConfig and the methods of Config\<close>

definition LoadConfig :: "Level \<Rightarrow> error + environ \<Rightarrow> environ \<Rightarrow> LogEntry list \<times> (error + Config)" where
  "LoadConfig logger file envs =
     (let (err, envs') = godotenv_Load file envs;
          warned = (case err of
                      None \<Rightarrow> []
                    | Some e \<Rightarrow> emit logger WarnLevel (Some e) ''failed to load environment variables'')
      in case env_Parse envs' of
           Inl e \<Rightarrow> (warned, Inl e)
         | Inr config \<Rightarrow>
             (case validator_Struct config of
                Some e \<Rightarrow> (warned, Inl e)
              | None \<Rightarrow> (warned, Inr config)))"

definition Config_LogLevel :: "Config \<Rightarrow> Level" where
  "Config_LogLevel c =
     (case ParseLevel (LogLevel (Server c)) of
        Inl err \<Rightarrow> InfoLevel
      | Inr level \<Rightarrow> level)"

definition IsProd :: "Config \<Rightarrow> bool" where
  "IsProd c = (Env (Server c) = ''prod'')"

section \<open>Health routes (package health)\<close>

subsection \<open>The response writer and the handler chain of gin\<close>

datatype JSON = JObject "(string \<times> JSON) list" | JString string

text \<open>
  What a handler can change: the response (status, whether the header has gone out, the
  bodies written, the content type), the abort flag of the chain, the errors attached to
  the context, and what the recovery middleware has printed on the error writer. The last
  one is process state; it is kept in the same record so that a handler passes one state.
\<close>

datatype PanicValue =
    RuntimeError string
  | BrokenConnection string
  | PanicValue string

record Context =
  status :: nat
  written :: bool
  body :: "JSON list"
  content_type :: "string option"
  aborted :: bool
  errors :: "PanicValue list"
  recovery_log :: "PanicValue list"

text \<open>A handler returns the context, or panics: \<open>Inl\<close> the panic value and the context then.\<close>

type_synonym handler = "Context \<Rightarrow> (PanicValue \<times> Context) + Context"

datatype HandlerFunc = Recovery | Handler handler

text \<open>The writer of a new request: status 200, nothing written.\<close>

definition reset :: "Context \<Rightarrow> Context" where
  "reset c = c\<lparr>status := 200, written := False, body := [], content_type := None,
               aborted := False, errors := []\<rparr>"

definition WriteHeader :: "nat \<Rightarrow> Context \<Rightarrow> Context" where
  "WriteHeader code c =
     (if 0 < code \<and> status c \<noteq> code then (if written c then c else c\<lparr>status := code\<rparr>) else c)"

definition WriteHeaderNow :: "Context \<Rightarrow> Context" where
  "WriteHeaderNow c = c\<lparr>written := True\<rparr>"

definition Context_Status :: "nat \<Rightarrow> Context \<Rightarrow> Context" where
  "Context_Status code c = WriteHeader code c"

definition bodyAllowedForStatus :: "nat \<Rightarrow> bool" where
  "bodyAllowedForStatus code =
     (if 100 \<le> code \<and> code \<le> 199 then False
      else if code = 204 then False
      else if code = 304 then False
      else True)"

definition writeContentType :: "string \<Rightarrow> Context \<Rightarrow> Context" where
  "writeContentType v c = (if content_type c = None then c\<lparr>content_type := Some v\<rparr> else c)"

definition Context_JSON :: "nat \<Rightarrow> JSON \<Rightarrow> Context \<Rightarrow> Context" where
  "Context_JSON code obj c =
     (let c1 = writeContentType ''application/json; charset=utf-8'' (Context_Status code c)
      in if bodyAllowedForStatus code
         then WriteHeaderNow (c1\<lparr>body := body c1 @ [obj]\<rparr>)
         else WriteHeaderNow c1)"

definition Context_Abort :: "Context \<Rightarrow> Context" where
  "Context_Abort c = c\<lparr>aborted := True\<rparr>"

definition Context_AbortWithStatus :: "nat \<Rightarrow> Context \<Rightarrow> Context" where
  "Context_AbortWithStatus code c = Context_Abort (WriteHeaderNow (Context_Status code c))"

text \<open>
  What \<^verbatim>\<open>gin.Recovery()\<close> does with a recovered panic: it prints it; for a broken
  connection it attaches the error and aborts, since no status can be written any more;
  for any other panic it aborts with status 500.
\<close>

definition recover :: "PanicValue \<Rightarrow> Context \<Rightarrow> Context" where
  "recover p c =
     (let c1 = c\<lparr>recovery_log := recovery_log c @ [p]\<rparr>
      in case p of
           BrokenConnection s \<Rightarrow> Context_Abort (c1\<lparr>errors := errors c1 @ [p]\<rparr>)
         | _ \<Rightarrow> Context_AbortWithStatus 500 c1)"

text \<open>
  \<^verbatim>\<open>c.Next()\<close>: the remaining handlers run in order; once the chain is aborted no further
  handler starts. The recovery middleware calls \<open>Next\<close> itself, under its deferred
  \<open>recover\<close>, so a panic of any later handler ends there; a panic with no recovery before
  it leaves the chain.
\<close>

fun Next :: "HandlerFunc list \<Rightarrow> Context \<Rightarrow> (PanicValue \<times> Context) + Context" where
  "Next [] c = Inr c"
| "Next (Recovery # hs) c =
     (if aborted c then Inr c
      else case Next hs c of
             Inl (p, c') \<Rightarrow> Inr (recover p c')
           | Inr c' \<Rightarrow> Inr c')"
| "Next (Handler h # hs) c =
     (if aborted c then Inr c
      else case h c of
             Inl pc \<Rightarrow> Inl pc
           | Inr c' \<Rightarrow> Next hs c')"

text \<open>
  \<^verbatim>\<open>hlog.NewHandler(logger)(next)\<close>: the handler puts a copy of the logger into the
  context of its own copy of the request and calls \<^verbatim>\<open>next.ServeHTTP\<close>. An
  \<^verbatim>\<open>http.Handler\<close> is an interface value and may be nil (\<open>None\<close>): calling it then is a
  nil pointer dereference. \<^verbatim>\<open>gin.WrapH(h)\<close> is the gin handler that calls \<open>h\<close> with the
  writer and the request of the context.
\<close>

definition hlog_NewHandler :: "Level \<Rightarrow> handler option \<Rightarrow> handler" where
  "hlog_NewHandler logger next c =
     (case next of
        None \<Rightarrow> Inl (RuntimeError ''invalid memory address or nil pointer dereference'', c)
      | Some h \<Rightarrow> h c)"

definition WrapH :: "handler \<Rightarrow> HandlerFunc" where
  "WrapH h = Handler (\<lambda>c. h c)"

subsection \<open>The handlers\<close>

text \<open>
  Modelled from the spec: the type \<^verbatim>\<open>HealthResult\<close> and the function \<^verbatim>\<open>getHealth\<close> are
  not among the source files. The spec gives the result no fields, so it renders as the
  empty JSON object. What \<open>getHealth\<close> does is a parameter of the handler: it panics
  (\<open>Inl\<close>), or it returns a result and an error (\<open>None\<close> for nil).
\<close>

datatype HealthResult = HealthResult

definition HealthResult_JSON :: "HealthResult \<Rightarrow> JSON" where
  "HealthResult_JSON res = JObject []"

type_synonym getHealth = "PanicValue + (HealthResult \<times> string option)"

definition handleReadinessProbe :: "getHealth \<Rightarrow> handler" where
  "handleReadinessProbe getHealth c =
     (case getHealth of
        Inl p \<Rightarrow> Inl (p, c)
      | Inr (res, err) \<Rightarrow>
          (case err of
             Some e \<Rightarrow> Inr (Context_JSON 500 (JObject [(''error'', JString e)]) c)
           | None \<Rightarrow> Inr (Context_JSON 200 (HealthResult_JSON res) c)))"

definition handleLivenessProbe :: handler where
  "handleLivenessProbe c = Inr (Context_Status 200 c)"

text \<open>
  The router: \<open>Use\<close> appends a middleware; a route registered afterwards gets the
  middleware registered so far, followed by its own handler.
\<close>

record Engine =
  middleware :: "HandlerFunc list"
  routes :: "((string \<times> string) \<times> HandlerFunc list) list"

definition gin_New :: Engine where
  "gin_New = \<lparr>middleware = [], routes = []\<rparr>"

definition Use :: "HandlerFunc \<Rightarrow> Engine \<Rightarrow> Engine" where
  "Use h e = e\<lparr>middleware := middleware e @ [h]\<rparr>"

definition GET :: "string \<Rightarrow> string \<Rightarrow> HandlerFunc \<Rightarrow> Engine \<Rightarrow> Engine" where
  "GET basePath relativePath h e =
     e\<lparr>routes := routes e @ [((''GET'', basePath @ relativePath), middleware e @ [h])]\<rparr>"

definition InitRoutes :: "getHealth \<Rightarrow> string \<Rightarrow> Engine \<Rightarrow> Engine" where
  "InitRoutes getHealth basePath e =
     GET basePath ''/live'' (Handler handleLivenessProbe)
       (GET basePath ''/ready'' (Handler (handleReadinessProbe getHealth)) e)"

text \<open>
  Serving a request that matches a route: the handlers of the route run on a fresh writer
  and the header goes out at the end. A panic that leaves the chain leaves this function
  too (\<open>Inl\<close>). Requests that match no route are answered by the router itself and are not
  part of this model (\<open>None\<close>).
\<close>

definition handleHTTPRequest ::
  "Engine \<Rightarrow> string \<Rightarrow> string \<Rightarrow> Context \<Rightarrow> ((PanicValue \<times> Context) + Context) option" where
  "handleHTTPRequest e httpMethod rPath c =
     (case map_of (routes e) (httpMethod, rPath) of
        None \<Rightarrow> None
      | Some hs \<Rightarrow>
          Some (case Next hs (reset c) of
                  Inl pc \<Rightarrow> Inl pc
                | Inr c' \<Rightarrow> Inr (WriteHeaderNow c')))"

section \<open>The server process (cmd/server.go)\<close>

text \<open>
  What the process meets outside its own code: the \<^verbatim>\<open>.env\<close> file and the environment,
  the mode gin starts in, whether the listener can bind, the signals delivered while
  \<open>main\<close> waits, how many seconds each request in flight still needs when draining starts,
  and the error of closing the listeners (\<open>None\<close> for nil).
\<close>

type_synonym Signal = nat

definition SIGINT :: Signal where "SIGINT = 2"
definition SIGTERM :: Signal where "SIGTERM = 15"

datatype GinMode = DebugMode | ReleaseMode | TestMode

record World =
  env_file :: "error + environ"
  environment :: environ
  start_mode :: GinMode
  listen_error :: "error option"
  delivered :: "Signal list"
  in_flight :: "nat list"
  close_error :: "error option"

text \<open>
  The process as \<open>main\<close> leaves it: the exit status (\<open>None\<close> while \<open>main\<close> is still blocked
  on the channel \<open>quit\<close>: it has neither returned nor called \<^verbatim>\<open>os.Exit\<close>), the log written
  to standard error, the mode of gin, and whether \<^verbatim>\<open>srv.Shutdown\<close> has been called. Of a
  log entry the level, the attached error and the message are kept.
\<close>

record Process =
  exit_status :: "int option"
  stderr :: "LogEntry list"
  gin_mode :: GinMode
  shutdown_called :: bool

definition log_event :: "Level \<Rightarrow> Level \<Rightarrow> error option \<Rightarrow> string \<Rightarrow> Process \<Rightarrow> Process" where
  "log_event logger lvl err msg p = p\<lparr>stderr := stderr p @ emit logger lvl err msg\<rparr>"

text \<open>\<^verbatim>\<open>logger.Fatal()...Msg(msg)\<close>: the event, then \<^verbatim>\<open>os.Exit(1)\<close>.\<close>

definition Fatal :: "Level \<Rightarrow> error \<Rightarrow> string \<Rightarrow> Process \<Rightarrow> Process" where
  "Fatal logger err msg p = (log_event logger FatalLevel (Some err) msg p)\<lparr>exit_status := Some 1\<rparr>"

definition Info :: "Level \<Rightarrow> string \<Rightarrow> Process \<Rightarrow> Process" where
  "Info logger msg p = log_event logger InfoLevel None msg p"

text \<open>
  \<^verbatim>\<open>signal.Notify(quit, sigs...)\<close> followed by \<^verbatim>\<open><-quit\<close>: of the signals delivered, the
  first registered one is received; the others never reach the channel.
\<close>

definition receive :: "Signal list \<Rightarrow> Signal list \<Rightarrow> Signal option" where
  "receive registered sigs = find (\<lambda>s. s \<in> set registered) sigs"

text \<open>
  \<^verbatim>\<open>(*http.Server).Shutdown(ctx)\<close> with a context that expires after \<open>deadline\<close> seconds:
  it closes the listeners and waits for the connections to become idle; when they all do
  in time it returns the error of closing the listeners, otherwise the error of the
  context. It does not close the connections still active.
\<close>

definition DeadlineExceeded :: error where
  "DeadlineExceeded = errorString ''context deadline exceeded''"

definition Server_Shutdown :: "nat \<Rightarrow> nat list \<Rightarrow> error option \<Rightarrow> error option" where
  "Server_Shutdown deadline inflight lnerr =
     (if list_all (\<lambda>d. d \<le> deadline) inflight then lnerr else Some DeadlineExceeded)"

text \<open>Lines 33 to 35 of \<open>main\<close>.\<close>

definition SetModeFor :: "Config \<Rightarrow> GinMode \<Rightarrow> GinMode" where
  "SetModeFor config mode = (if IsProd config then ReleaseMode else mode)"

text \<open>The router of lines 37 to 41.\<close>

definition router :: "Level \<Rightarrow> getHealth \<Rightarrow> Engine" where
  "router logger getHealth =
     InitRoutes getHealth ''/health''
       (Use (WrapH (hlog_NewHandler logger None)) (Use Recovery gin_New))"

text \<open>
  \<open>main\<close>, with the serving goroutine run as soon as it is started: its first log line and
  the outcome of binding come before the wait for a signal.
\<close>

definition main :: "World \<Rightarrow> Process" where
  "main w =
     (let logger = DebugLevel;
          (out, r) = LoadConfig logger (env_file w) (environment w);
          p = \<lparr>exit_status = None,
               stderr = out,
               gin_mode = start_mode w, shutdown_called = False\<rparr>
      in case r of
           Inl err \<Rightarrow> Fatal logger err ''failed to load config'' p
         | Inr config \<Rightarrow>
             let logger = Config_LogLevel config;
                 p = Info logger ''config loaded'' p;
                 p = p\<lparr>gin_mode := SetModeFor config (gin_mode p)\<rparr>;
                 p = Info logger ''server started'' p
             in (case listen_error w of
                   Some e \<Rightarrow> Fatal logger e ''failed to start server'' p
                 | None \<Rightarrow>
                     (case receive [SIGINT, SIGTERM] (delivered w) of
                        None \<Rightarrow> p
                      | Some s \<Rightarrow>
                          let p = Info logger ''shutting down server'' p;
                              p = p\<lparr>shutdown_called := True\<rparr>
                          in (case Server_Shutdown 30 (in_flight w) (close_error w) of
                                Some e \<Rightarrow> Fatal logger e ''failed to shutdown server'' p
                              | None \<Rightarrow> p\<lparr>exit_status := Some 0\<rparr>))))"

subsection \<open>Concrete inputs\<close>

definition env_local :: environ where
  "env_local = [''SERVER_PORT'' \<mapsto> ''8080'', ''SERVER_ENV'' \<mapsto> ''local'']"

definition env_bad_port :: environ where
  "env_bad_port = [''SERVER_PORT'' \<mapsto> ''70000'', ''SERVER_ENV'' \<mapsto> ''local'']"

definition env_empty_level :: environ where
  "env_empty_level = [''SERVER_PORT'' \<mapsto> ''8080'', ''SERVER_ENV'' \<mapsto> ''local'',
                      ''SERVER_LOG_LEVEL'' \<mapsto> []]"

definition no_env_file :: "error + environ" where
  "no_env_file = Inl (errorString ''open .env: no such file or directory'')"

definition world_idle :: World where
  "world_idle =
     \<lparr>env_file = no_env_file, environment = env_local, start_mode = DebugMode,
      listen_error = None, delivered = [SIGTERM], in_flight = [], close_error = None\<rparr>"

definition world_slow_request :: World where
  "world_slow_request = world_idle\<lparr>in_flight := [31]\<rparr>"

definition config_warn :: Config where
  "config_warn = \<lparr>Server = \<lparr>Address = [], Port = 8080, LogLevel = ''warn'', Env = ''prod''\<rparr>\<rparr>"


section \<open>Properties of the configuration\<close>

subsection \<open>What the validator accepts, what the loader returns\<close>

lemma validator_Struct_None_iff:
  "validator_Struct c = None \<longleftrightarrow>
     0 < Port (Server c) \<and> Port (Server c) < 65536 \<and>
     LogLevel (Server c) \<in> set logLevels \<and> Env (Server c) \<in> set envTags"
  by (auto simp add: validator_Struct_def validate_Port_def validate_oneof_def field_error_def
        logLevels_def envTags_def Let_def split: if_splits)

lemma LoadConfig_result:
  "snd (LoadConfig logger file envs) =
     (case env_Parse (snd (godotenv_Load file envs)) of
        Inl e \<Rightarrow> Inl e
      | Inr config \<Rightarrow>
          (case validator_Struct config of Some e \<Rightarrow> Inl e | None \<Rightarrow> Inr config))"
  by (simp add: LoadConfig_def split: prod.splits sum.splits option.splits)

lemma ParseInt_Nil: "ParseInt [] n = Inl ErrSyntax"
  by (simp add: ParseInt_def)

lemma env_Parse_fields:
  assumes "env_Parse envs = Inr c"
  shows "Address (Server c) = (case envs ''SERVER_ADDRESS'' of None \<Rightarrow> [] | Some a \<Rightarrow> a)"
    and "Port (Server c) =
           (case envs ''SERVER_PORT'' of
              None \<Rightarrow> 0
            | Some s \<Rightarrow> if s = [] then 0 else (case ParseInt s 32 of Inr p \<Rightarrow> p | Inl e \<Rightarrow> 0))"
    and "LogLevel (Server c) =
           (case envs ''SERVER_LOG_LEVEL'' of
              None \<Rightarrow> ''info''
            | Some l \<Rightarrow> if l = [] then ''info'' else l)"
    and "Env (Server c) = (case envs ''SERVER_ENV'' of None \<Rightarrow> [] | Some e \<Rightarrow> e)"
  using assms
  by (auto simp add: env_Parse_def getOr_def Let_def split: option.splits sum.splits if_splits)

lemma env_Parse_error:
  "(\<exists>e. env_Parse envs = Inl e) \<longleftrightarrow>
     (\<exists>s e. envs ''SERVER_PORT'' = Some s \<and> s \<noteq> [] \<and> ParseInt s 32 = Inl e)"
  by (auto simp add: env_Parse_def getOr_def Let_def split: option.splits sum.splits if_splits)

lemma ParseInt_8080: "ParseInt ''8080'' 32 = Inr 8080"
  by (simp add: ParseInt_def ParseUint_def digit_of_def)

lemma ParseInt_70000: "ParseInt ''70000'' 32 = Inr 70000"
  by (simp add: ParseInt_def ParseUint_def digit_of_def)

subsection \<open>The level of the logger\<close>

lemma ParseLevel_logLevels:
  "ParseLevel ''debug'' = Inr DebugLevel" "ParseLevel ''info'' = Inr InfoLevel"
  "ParseLevel ''warn'' = Inr WarnLevel" "ParseLevel ''error'' = Inr ErrorLevel"
  by (simp_all add: ParseLevel_def levelNames_def EqualFold_def lower_def)

lemma Level_String_logLevels:
  "Level_String DebugLevel = Some ''debug''" "Level_String InfoLevel = Some ''info''"
  "Level_String WarnLevel = Some ''warn''" "Level_String ErrorLevel = Some ''error''"
  by (simp_all add: Level_String_def levelNames_def TraceLevel_def DebugLevel_def InfoLevel_def
        WarnLevel_def ErrorLevel_def)

lemma validated_levels:
  assumes "validator_Struct c = None"
  obtains "LogLevel (Server c) = ''debug''" | "LogLevel (Server c) = ''info''"
    | "LogLevel (Server c) = ''warn''" | "LogLevel (Server c) = ''error''"
  using assms by (auto simp add: validator_Struct_None_iff logLevels_def)

text \<open>
  C9. For every configuration the validator accepts, \<open>ParseLevel\<close> succeeds on the
  \<open>LogLevel\<close> string, so the method \<open>LogLevel()\<close> never takes its fallback to
  \<open>InfoLevel\<close>, and the level it returns is the one whose name is that string.
\<close>

theorem LogLevel_of_validated_config:
  assumes "validator_Struct c = None"
  shows "ParseLevel (LogLevel (Server c)) = Inr (Config_LogLevel c) \<and>
         Level_String (Config_LogLevel c) = Some (LogLevel (Server c))"
  using assms
  by (rule validated_levels)
     (simp_all add: Config_LogLevel_def ParseLevel_logLevels Level_String_logLevels)

theorem LogLevel_of_validated_config_witness:
  "validator_Struct config_warn = None \<and>
   ParseLevel (LogLevel (Server config_warn)) = Inr WarnLevel \<and>
   Config_LogLevel config_warn = WarnLevel \<and>
   Level_String WarnLevel = Some ''warn''"
proof -
  have h: "validator_Struct config_warn = None"
    by (simp add: validator_Struct_None_iff config_warn_def logLevels_def envTags_def)
  have l: "Config_LogLevel config_warn = WarnLevel"
    by (simp add: Config_LogLevel_def config_warn_def ParseLevel_logLevels)
  have s: "LogLevel (Server config_warn) = ''warn''"
    by (simp add: config_warn_def)
  show ?thesis
    using h LogLevel_of_validated_config [OF h] by (simp add: l s)
qed

text \<open>
  C10. \<open>IsProd\<close> holds exactly when the environment tag is the string \<open>prod\<close>; it is
  false for the tags \<open>local\<close>, \<open>dev\<close> and \<open>staging\<close>; and \<open>main\<close>, started in gin's debug
  mode, switches to release mode exactly for \<open>prod\<close>.
\<close>

theorem IsProd_only_for_prod:
  "IsProd c = (Env (Server c) = ''prod'') \<and>
   \<not> IsProd (c\<lparr>Server := (Server c)\<lparr>Env := ''local''\<rparr>\<rparr>) \<and>
   \<not> IsProd (c\<lparr>Server := (Server c)\<lparr>Env := ''dev''\<rparr>\<rparr>) \<and>
   \<not> IsProd (c\<lparr>Server := (Server c)\<lparr>Env := ''staging''\<rparr>\<rparr>) \<and>
   (SetModeFor c DebugMode = ReleaseMode) = (Env (Server c) = ''prod'')"
  by (simp add: IsProd_def SetModeFor_def)

text \<open>
  C8. When the \<^verbatim>\<open>.env\<close> file cannot be loaded, \<open>LoadConfig\<close> logs one warning that carries
  the error (on the logger \<open>main\<close> passes, which is at debug level) and goes on with the
  process environment: its result is the one it gives when the file loads and sets
  nothing, so the failure alone never makes it return an error.
\<close>

theorem dotenv_failure_is_a_warning:
  "fst (LoadConfig DebugLevel (Inl err) envs) =
     [\<lparr>entry_level = WarnLevel, entry_err = Some err,
       entry_msg = ''failed to load environment variables''\<rparr>] \<and>
   snd (LoadConfig logger (Inl err) envs) = snd (LoadConfig logger (Inr Map.empty) envs)"
  by (simp add: LoadConfig_def godotenv_Load_def emit_def DebugLevel_def WarnLevel_def
        split: sum.splits option.splits)

text \<open>
  C4. In every environment (as it stands after the \<^verbatim>\<open>.env\<close> file has been tried) in
  which the port variable parses as an integer from 1 to 65535, the log level variable is
  unset or one of debug, info, warn, error, and the environment tag is one of local, dev,
  staging, prod, \<open>LoadConfig\<close> returns no error but the configuration holding these values.
\<close>

theorem LoadConfig_valid_environment:
  assumes eff: "envs' = snd (godotenv_Load file envs)"
    and port: "envs' ''SERVER_PORT'' = Some port" "ParseInt port 32 = Inr p" "1 \<le> p" "p \<le> 65535"
    and level: "envs' ''SERVER_LOG_LEVEL'' = None \<or>
                (\<exists>l. envs' ''SERVER_LOG_LEVEL'' = Some l \<and> l \<in> set logLevels)"
    and tag: "envs' ''SERVER_ENV'' = Some tag" "tag \<in> set envTags"
  shows "snd (LoadConfig logger file envs) =
           Inr \<lparr>Server =
                 \<lparr>Address = (case envs' ''SERVER_ADDRESS'' of None \<Rightarrow> [] | Some a \<Rightarrow> a),
                  Port = p,
                  LogLevel = (case envs' ''SERVER_LOG_LEVEL'' of None \<Rightarrow> ''info'' | Some l \<Rightarrow> l),
                  Env = tag\<rparr>\<rparr>"
    (is "_ = Inr ?c")
proof -
  have nonempty: "port \<noteq> []"
    using port(2) by (auto simp add: ParseInt_Nil)
  have lvl: "(case envs' ''SERVER_LOG_LEVEL'' of None \<Rightarrow> ''info'' | Some l \<Rightarrow> l) \<in> set logLevels"
    using level by (auto simp add: logLevels_def)
  then have lvl_ne: "envs' ''SERVER_LOG_LEVEL'' \<noteq> Some []"
    by (auto simp add: logLevels_def)
  have parsed: "env_Parse envs' = Inr ?c"
    using port(1,2) nonempty tag(1) lvl_ne
    by (auto simp add: env_Parse_def getOr_def Let_def split: option.splits)
  have valid: "validator_Struct ?c = None"
    using port(3,4) lvl tag(2) by (simp add: validator_Struct_None_iff)
  show ?thesis
    using parsed valid by (simp add: LoadConfig_result eff [symmetric])
qed

theorem LoadConfig_valid_environment_witness:
  "snd (LoadConfig DebugLevel no_env_file env_local) =
     Inr \<lparr>Server = \<lparr>Address = [], Port = 8080, LogLevel = ''info'', Env = ''local''\<rparr>\<rparr>"
proof -
  have eff: "env_local = snd (godotenv_Load no_env_file env_local)"
    by (simp add: godotenv_Load_def no_env_file_def)
  have port: "env_local ''SERVER_PORT'' = Some ''8080''"
    by (simp add: env_local_def)
  have level: "env_local ''SERVER_LOG_LEVEL'' = None \<or>
               (\<exists>l. env_local ''SERVER_LOG_LEVEL'' = Some l \<and> l \<in> set logLevels)"
    by (simp add: env_local_def)
  have tag: "env_local ''SERVER_ENV'' = Some ''local''"
    by (simp add: env_local_def)
  have mem: "''local'' \<in> set envTags"
    by (simp add: envTags_def)
  show ?thesis
    using LoadConfig_valid_environment [OF eff port ParseInt_8080 _ _ level tag mem, of DebugLevel]
    by (simp add: env_local_def)
qed

text \<open>
  C5, as the claim states it, fails where the log level variable is set to the empty
  string: the empty string is outside the enumeration, yet \<open>getOr\<close> lets the default
  \<open>info\<close> stand in for it and \<open>LoadConfig\<close> returns a configuration.
\<close>

theorem empty_log_level_counterexample:
  "env_empty_level ''SERVER_LOG_LEVEL'' = Some [] \<and> [] \<notin> set logLevels \<and>
   snd (LoadConfig DebugLevel no_env_file env_empty_level) =
     Inr \<lparr>Server = \<lparr>Address = [], Port = 8080, LogLevel = ''info'', Env = ''local''\<rparr>\<rparr>"
  by (simp add: LoadConfig_result env_empty_level_def no_env_file_def logLevels_def envTags_def
        godotenv_Load_def env_Parse_def getOr_def ParseInt_8080 validator_Struct_def
        validate_Port_def validate_oneof_def field_error_def)

text \<open>
  C5, amended. In every environment in which the port or the environment tag is unset, or
  the port is not an integer from 1 to 65535, or the log level variable is set to a
  non-empty value outside its enumeration, or the environment tag is outside its
  enumeration, \<open>LoadConfig\<close> returns an error and no configuration.
\<close>

theorem LoadConfig_invalid_environment:
  assumes eff: "envs' = snd (godotenv_Load file envs)"
    and bad: "envs' ''SERVER_PORT'' = None
            \<or> envs' ''SERVER_ENV'' = None
            \<or> (\<exists>port. envs' ''SERVER_PORT'' = Some port \<and>
                  (\<forall>p. ParseInt port 32 = Inr p \<longrightarrow> p < 1 \<or> 65535 < p))
            \<or> (\<exists>l. envs' ''SERVER_LOG_LEVEL'' = Some l \<and> l \<noteq> [] \<and> l \<notin> set logLevels)
            \<or> (\<exists>tag. envs' ''SERVER_ENV'' = Some tag \<and> tag \<notin> set envTags)"
  shows "\<exists>err. snd (LoadConfig logger file envs) = Inl err"
proof (cases "env_Parse envs'")
  case (Inl e)
  then show ?thesis
    by (simp add: LoadConfig_result eff [symmetric])
next
  case (Inr c)
  note f = env_Parse_fields [OF Inr]
  have "\<not> (0 < Port (Server c) \<and> Port (Server c) < 65536 \<and>
            LogLevel (Server c) \<in> set logLevels \<and> Env (Server c) \<in> set envTags)"
    using bad
  proof (elim disjE exE conjE)
    assume "envs' ''SERVER_PORT'' = None"
    then show ?thesis by (simp add: f(2))
  next
    assume "envs' ''SERVER_ENV'' = None"
    then show ?thesis by (simp add: f(4) envTags_def)
  next
    fix port
    assume "envs' ''SERVER_PORT'' = Some port"
      and "\<forall>p. ParseInt port 32 = Inr p \<longrightarrow> p < 1 \<or> 65535 < p"
    then show ?thesis
      by (cases "ParseInt port 32") (auto simp add: f(2))
  next
    fix l
    assume "envs' ''SERVER_LOG_LEVEL'' = Some l" "l \<noteq> []" "l \<notin> set logLevels"
    then show ?thesis by (simp add: f(3))
  next
    fix tag
    assume "envs' ''SERVER_ENV'' = Some tag" "tag \<notin> set envTags"
    then show ?thesis by (simp add: f(4))
  qed
  then have "validator_Struct c \<noteq> None"
    by (simp add: validator_Struct_None_iff)
  then show ?thesis
    using Inr by (auto simp add: LoadConfig_result eff [symmetric])
qed

theorem LoadConfig_invalid_environment_witness:
  "env_bad_port ''SERVER_PORT'' = Some ''70000'' \<and> ParseInt ''70000'' 32 = Inr 70000 \<and>
   (\<exists>err. snd (LoadConfig DebugLevel no_env_file env_bad_port) = Inl err)"
proof -
  have eff: "env_bad_port = snd (godotenv_Load no_env_file env_bad_port)"
    by (simp add: godotenv_Load_def no_env_file_def)
  have port: "env_bad_port ''SERVER_PORT'' = Some ''70000''"
    by (simp add: env_bad_port_def)
  have bad: "\<forall>p. ParseInt ''70000'' 32 = Inr p \<longrightarrow> p < 1 \<or> 65535 < p"
    by (simp add: ParseInt_70000)
  show ?thesis
    using LoadConfig_invalid_environment [OF eff, of DebugLevel] port bad ParseInt_70000
    by blast
qed

section \<open>Properties of the health routes\<close>

subsection \<open>Recovery and the handler chain\<close>



text \<open>Whatever the later handlers do, no panic leaves a chain that starts with \<open>Recovery\<close>.\<close>

lemma Next_Recovery_returns: "\<exists>c'. Next (Recovery # hs) c = Inr c'"
  by (cases "Next hs c") auto

lemma reset_fresh: "\<not> written (reset c)" "\<not> aborted (reset c)" "status (reset c) = 200"
  "body (reset c) = []" "recovery_log (reset c) = recovery_log c"
  by (simp_all add: reset_def)


lemma router_routes:
  "routes (router logger getHealth) =
     [((''GET'', ''/health/ready''),
       [Recovery, WrapH (hlog_NewHandler logger None), Handler (handleReadinessProbe getHealth)]),
      ((''GET'', ''/health/live''),
       [Recovery, WrapH (hlog_NewHandler logger None), Handler handleLivenessProbe])]"
  by (simp add: router_def InitRoutes_def GET_def Use_def gin_New_def)

text \<open>The logging middleware was built with a nil \<open>next\<close>: it panics whenever it runs.\<close>

lemma nil_next_panics:
  "\<not> aborted c \<Longrightarrow>
   Next (WrapH (hlog_NewHandler logger None) # hs) c =
     Inl (RuntimeError ''invalid memory address or nil pointer dereference'', c)"
  by (simp add: WrapH_def hlog_NewHandler_def)


text \<open>
  C2. The request \<^verbatim>\<open>GET /health/live\<close>, served through the chain \<open>main\<close> registers, is
  answered with status 500 and an empty body, for every logger, every \<open>getHealth\<close> and
  every earlier state: the logging middleware panics before \<open>handleLivenessProbe\<close> runs
  and the recovery middleware turns the panic into the 500.
\<close>

theorem liveness_request_gets_500:
  "\<exists>c'. handleHTTPRequest (router logger getHealth) ''GET'' ''/health/live'' c = Some (Inr c') \<and>
        status c' = 500 \<and> body c' = [] \<and>
        recovery_log c' = recovery_log c @
          [RuntimeError ''invalid memory address or nil pointer dereference'']"
  by (simp add: handleHTTPRequest_def router_routes nil_next_panics reset_fresh recover_def
      Context_AbortWithStatus_def Context_Abort_def WriteHeaderNow_def Context_Status_def
      WriteHeader_def)

text \<open>
  The handler is not at fault: behind a logging middleware that has a \<open>next\<close> to call, the
  same chain answers 200 with an empty body.
\<close>

lemma liveness_with_a_next_handler:
  "\<exists>c'. Next [Recovery, WrapH (hlog_NewHandler logger (Some Inr)), Handler handleLivenessProbe]
           (reset c) = Inr c' \<and> status c' = 200 \<and> body c' = []"
  by (simp add: WrapH_def hlog_NewHandler_def handleLivenessProbe_def Context_Status_def
      WriteHeader_def reset_def)



section \<open>Properties of the server process\<close>

lemma LoadConfig_Inr_validated:
  "snd (LoadConfig logger file envs) = Inr config \<Longrightarrow> validator_Struct config = None"
  by (auto simp add: LoadConfig_result split: sum.splits option.splits)

text \<open>The logger of a validated configuration lets fatal events through.\<close>

lemma validated_level_below_fatal:
  assumes "validator_Struct c = None"
  shows "\<not> FatalLevel < Config_LogLevel c"
  using assms
  by (rule validated_levels)
     (simp_all add: Config_LogLevel_def ParseLevel_logLevels FatalLevel_def DebugLevel_def
        InfoLevel_def WarnLevel_def ErrorLevel_def)

lemma receive_None_iff:
  "receive [SIGINT, SIGTERM] sigs = None \<longleftrightarrow> SIGINT \<notin> set sigs \<and> SIGTERM \<notin> set sigs"
  by (auto simp add: receive_def find_None_iff)

lemma Server_Shutdown_deadline:
  "\<exists>d\<in>set inflight. deadline < d \<Longrightarrow>
   Server_Shutdown deadline inflight lnerr = Some DeadlineExceeded"
  by (auto simp add: Server_Shutdown_def list_all_iff)

lemma LoadConfig_env_local:
  "LoadConfig DebugLevel no_env_file env_local =
     ([\<lparr>entry_level = WarnLevel,
        entry_err = Some (errorString ''open .env: no such file or directory''),
        entry_msg = ''failed to load environment variables''\<rparr>],
      Inr \<lparr>Server = \<lparr>Address = [], Port = 8080, LogLevel = ''info'', Env = ''local''\<rparr>\<rparr>)"
  by (simp add: LoadConfig_def env_local_def no_env_file_def logLevels_def envTags_def
        godotenv_Load_def env_Parse_def getOr_def ParseInt_8080 validator_Struct_def
        validate_Port_def validate_oneof_def field_error_def emit_def DebugLevel_def WarnLevel_def)

text \<open>Once the configuration is loaded, the mode of gin is what lines 33 to 35 make it.\<close>

lemma main_gin_mode:
  assumes "snd (LoadConfig DebugLevel (env_file w) (environment w)) = Inr config"
  shows "gin_mode (main w) = (if Env (Server config) = ''prod'' then ReleaseMode else start_mode w)"
proof -
  obtain out where lc: "LoadConfig DebugLevel (env_file w) (environment w) = (out, Inr config)"
    using assms by (cases "LoadConfig DebugLevel (env_file w) (environment w)") simp
  show ?thesis
    by (simp add: main_def lc Let_def Info_def Fatal_def log_event_def SetModeFor_def IsProd_def
          split: option.splits)
qed



text \<open>
  C1, as the claim states it, fails: with SIGTERM delivered and one request that still
  needs 31 seconds, \<open>Shutdown\<close> returns the error of the expired context, which \<open>main\<close>
  treats like any other error of \<open>Shutdown\<close>: the process exits with status 1, not 0.
\<close>

theorem drain_timeout_counterexample:
  "delivered world_slow_request = [SIGTERM] \<and> in_flight world_slow_request = [31] \<and>
   shutdown_called (main world_slow_request) \<and>
   exit_status (main world_slow_request) = Some 1 \<and>
   exit_status (main world_slow_request) \<noteq> Some 0"
  by (simp add: main_def world_slow_request_def world_idle_def LoadConfig_env_local Let_def
        receive_def Server_Shutdown_def Info_def Fatal_def log_event_def)

text \<open>
  C1, amended. If SIGINT or SIGTERM has been received and a request is still in flight
  when the 30 seconds of the drain deadline are over, \<open>main\<close> logs the deadline error at
  fatal level with the message \<open>failed to shutdown server\<close> and the process exits with
  status 1.
\<close>

theorem drain_deadline_is_fatal:
  assumes loaded: "snd (LoadConfig DebugLevel (env_file w) (environment w)) = Inr config"
    and bound: "listen_error w = None"
    and signal: "SIGINT \<in> set (delivered w) \<or> SIGTERM \<in> set (delivered w)"
    and slow: "\<exists>d\<in>set (in_flight w). 30 < d"
  shows "shutdown_called (main w) \<and> exit_status (main w) = Some 1 \<and>
         last (stderr (main w)) =
           \<lparr>entry_level = FatalLevel, entry_err = Some DeadlineExceeded,
            entry_msg = ''failed to shutdown server''\<rparr>"
proof -
  obtain out where lc: "LoadConfig DebugLevel (env_file w) (environment w) = (out, Inr config)"
    using loaded by (cases "LoadConfig DebugLevel (env_file w) (environment w)") simp
  obtain s where rcv: "receive [SIGINT, SIGTERM] (delivered w) = Some s"
    using signal receive_None_iff [of "delivered w"] by auto
  have lvl: "\<not> FatalLevel < Config_LogLevel config"
    using loaded by (intro validated_level_below_fatal LoadConfig_Inr_validated)
  have sd: "Server_Shutdown 30 (in_flight w) (close_error w) = Some DeadlineExceeded"
    using slow by (rule Server_Shutdown_deadline)
  show ?thesis
    using lvl
    by (simp add: main_def lc bound rcv sd Let_def Info_def Fatal_def log_event_def emit_def)
qed

theorem drain_deadline_is_fatal_witness:
  "SIGTERM \<in> set (delivered world_slow_request) \<and> 31 \<in> set (in_flight world_slow_request) \<and>
   exit_status (main world_slow_request) = Some 1 \<and>
   entry_level (last (stderr (main world_slow_request))) = FatalLevel"
proof -
  have loaded: "snd (LoadConfig DebugLevel (env_file world_slow_request)
        (environment world_slow_request)) =
      Inr \<lparr>Server = \<lparr>Address = [], Port = 8080, LogLevel = ''info'', Env = ''local''\<rparr>\<rparr>"
    by (simp add: world_slow_request_def world_idle_def LoadConfig_env_local)
  have bound: "listen_error world_slow_request = None"
    by (simp add: world_slow_request_def world_idle_def)
  have sig: "SIGTERM \<in> set (delivered world_slow_request)"
    by (simp add: world_slow_request_def world_idle_def)
  have slow: "31 \<in> set (in_flight world_slow_request)"
    by (simp add: world_slow_request_def)
  then have ex: "\<exists>d\<in>set (in_flight world_slow_request). 30 < d"
    by (rule bexI [rotated]) simp
  show ?thesis
    using drain_deadline_is_fatal [OF loaded bound _ ex] sig slow by simp
qed

end
